theory Spec2Isabelle
  imports Complex_Main "HOL-Library.Monad_Syntax" "HOL-Library.Word"
begin

section \<open>The title bar of shell/browser/ui/views/title_bar.cc\<close>

text \<open>
  The file draws a window title bar on top of the views toolkit. The embedding keeps the
  functions of the file under their own names. What the file only calls (the toolkit, the
  operating system, the caption button class) is either a small total function written
  out below or a field of the environment record \<open>Env\<close>.

  Pixel coordinates are \<open>int\<close>: the arithmetic of the file is sums and differences of
  screen metrics and widget sizes, far from the bounds of a 32-bit integer. The extents of
  a \<open>gfx::Size\<close> and of a \<open>gfx::Rect\<close> are \<open>nat\<close>, because those classes clamp a negative
  width or height to zero on construction (\<open>nat w\<close> is \<open>max 0 w\<close>). A function that would
  dereference a null or dangling pointer, or abort on a failed DCHECK, returns \<open>None\<close>.
\<close>

subsection \<open>Geometry: gfx::Point, gfx::Size, gfx::Rect\<close>

record Point =
  Point_x :: int
  Point_y :: int

record Size =
  Size_width :: nat
  Size_height :: nat

record Rect =
  Rect_x :: int
  Rect_y :: int
  Rect_width :: nat
  Rect_height :: nat

definition gfx_Size :: "int \<Rightarrow> int \<Rightarrow> Size" where
  "gfx_Size w h = \<lparr>Size_width = nat w, Size_height = nat h\<rparr>"

definition gfx_Rect :: "int \<Rightarrow> int \<Rightarrow> int \<Rightarrow> int \<Rightarrow> Rect" where
  "gfx_Rect x y w h = \<lparr>Rect_x = x, Rect_y = y, Rect_width = nat w, Rect_height = nat h\<rparr>"

definition Rect_right :: "Rect \<Rightarrow> int" where
  "Rect_right r = Rect_x r + int (Rect_width r)"

definition Rect_bottom :: "Rect \<Rightarrow> int" where
  "Rect_bottom r = Rect_y r + int (Rect_height r)"

definition Rect_Contains :: "Rect \<Rightarrow> Point \<Rightarrow> bool" where
  "Rect_Contains r p =
     (Point_x p \<ge> Rect_x r \<and> Point_x p < Rect_right r \<and>
      Point_y p \<ge> Rect_y r \<and> Point_y p < Rect_bottom r)"

text \<open>The quotient of two C++ \<open>int\<close>s is rounded towards zero.\<close>

definition cpp_div :: "int \<Rightarrow> int \<Rightarrow> int" where
  "cpp_div a b = sgn a * sgn b * (\<bar>a\<bar> div \<bar>b\<bar>)"

definition kFaviconSize :: int where
  "kFaviconSize = 16"

subsection \<open>Views\<close>

datatype ViewID =
    VIEW_ID_NONE
  | VIEW_ID_HAMBURGER_BUTTON
  | VIEW_ID_WINDOW_TITLE
  | VIEW_ID_MINIMIZE_BUTTON
  | VIEW_ID_MAXIMIZE_BUTTON
  | VIEW_ID_RESTORE_BUTTON
  | VIEW_ID_CLOSE_BUTTON

datatype ResourceID =
    IDS_APP_ACCNAME_HAMBURGER
  | IDS_APP_ACCNAME_MINIMIZE
  | IDS_APP_ACCNAME_MAXIMIZE
  | IDS_APP_ACCNAME_RESTORE
  | IDS_APP_ACCNAME_CLOSE

text \<open>
  The part of a \<open>views::View\<close> the file reads and writes: its id, its bounds in the parent,
  its visibility, and the text of a label.
\<close>

record View =
  view_id :: ViewID
  view_bounds :: Rect
  view_visible :: bool
  label_text :: string

definition View_ctor :: View where
  "View_ctor = \<lparr>view_id = VIEW_ID_NONE, view_bounds = gfx_Rect 0 0 0 0, view_visible = True, label_text = ''''\<rparr>"

text \<open>
  A pointer to a child view is an address. Address 0 is the null pointer; the \<open>n\<close>-th object
  allocated with \<open>new\<close> has address \<open>n\<close>.
\<close>

type_synonym view_ptr = nat

definition nullptr :: view_ptr where
  "nullptr = 0"

subsection \<open>The widget and the window manager\<close>

type_synonym SkColor = "32 word"

definition SK_ColorWHITE :: SkColor where
  "SK_ColorWHITE = 0xFFFFFFFF"

datatype ThemeProperty = COLOR_FRAME | COLOR_FRAME_INACTIVE

datatype ClosedReason =
    kUnspecified
  | kEscKeyPressed
  | kCloseButtonClicked
  | kLostFocus
  | kCancelButtonClicked
  | kAcceptButtonClicked

text \<open>The operations of \<open>views::Widget\<close> that the title bar invokes.\<close>

datatype WidgetCall = Minimize | Maximize | Restore | CloseWithReason ClosedReason

text \<open>
  What the title bar reads from its widget, and the calls the widget has received, oldest
  first.
\<close>

record Widget =
  IsMaximized :: bool
  ShouldPaintAsActive :: bool
  GetWindowTitle :: string
  GetThemeProvider :: "(ThemeProperty \<Rightarrow> SkColor) option"
  received :: "WidgetCall list"

subsection \<open>Icons, bitmaps and the canvas\<close>

type_synonym HICON = nat

record SkBitmap =
  SkBitmap_isNull :: bool
  SkBitmap_width :: int
  SkBitmap_height :: int

record ImageSkia =
  ImageSkia_isNull :: bool
  ImageSkia_width :: int
  ImageSkia_height :: int

text \<open>The default-constructed \<open>gfx::ImageSkia()\<close> is the null image.\<close>

definition ImageSkia_ctor :: ImageSkia where
  "ImageSkia_ctor = \<lparr>ImageSkia_isNull = True, ImageSkia_width = 0, ImageSkia_height = 0\<rparr>"

text \<open>
  A canvas is the list of the drawing calls made on it, oldest first. The arguments of
  \<open>DrawImageInt\<close> are the image, the source rectangle (x, y, w, h), the destination
  rectangle (x, y, w, h) and the filter flag.
\<close>

datatype DrawOp = DrawImageInt ImageSkia int int int int int int int int bool

type_synonym Canvas = "DrawOp list"

text \<open>
  Single-precision arithmetic is kept abstract: the five operations \<open>PaintIcon\<close> uses, over
  a type \<open>'f\<close> of floats.
\<close>

record 'f FloatOps =
  float_of_int :: "int \<Rightarrow> 'f"
  float_div :: "'f \<Rightarrow> 'f \<Rightarrow> 'f"
  float_mul :: "'f \<Rightarrow> 'f \<Rightarrow> 'f"
  float_min :: "'f \<Rightarrow> 'f \<Rightarrow> 'f"
  int_of_float :: "'f \<Rightarrow> int"

subsection \<open>The environment\<close>

datatype SystemMetric = SM_CYCAPTION | SM_CYSIZEFRAME | SM_CYEDGE | SM_CYSMICON | SM_CXSIZEFRAME

datatype HitTest = HTNOWHERE | HTCLIENT | HTCAPTION

text \<open>
  Everything the file obtains from outside itself:
  \<^item> \<open>GetSystemMetricsInDIP\<close>: the screen metrics;
  \<^item> \<open>GetStringUTF16\<close>: the localised string of a resource;
  \<^item> \<open>WindowsCaptionButton\<close>: the view that the constructor of the caption button class
    (win_caption_button.h) builds from a button type and an accessible name;
  \<^item> \<open>GetPreferredSize\<close>: the preferred size of a caption button;
  \<^item> \<open>LoadIcon\<close>: the result of \<open>::LoadIcon(NULL, IDI_APPLICATION)\<close>, \<open>None\<close> for a null
    handle;
  \<^item> \<open>CreateSkBitmapFromHICON\<close> and \<open>CreateFrom1xBitmap\<close>: the two image conversions;
  \<^item> \<open>GetEventHandlerForPoint\<close>: the view that handles events at a point;
  \<^item> \<open>WindowManager\<close>: how the widget reacts to a call;
  \<^item> \<open>DCHECK_LE\<close>: the assertion macro of base/logging.h, \<open>None\<close> when it aborts the
    program (in a build with DCHECKs on, \<open>DCHECK_LE(a, b)\<close> aborts when \<open>a > b\<close>; in a build
    with DCHECKs off it does nothing).
\<close>

record Env =
  GetSystemMetricsInDIP :: "SystemMetric \<Rightarrow> int"
  GetStringUTF16 :: "ResourceID \<Rightarrow> string"
  WindowsCaptionButton :: "ViewID \<Rightarrow> string \<Rightarrow> View"
  GetPreferredSize :: "view_ptr \<Rightarrow> Size"
  LoadIcon :: "HICON option"
  CreateSkBitmapFromHICON :: "HICON \<Rightarrow> SkBitmap"
  CreateFrom1xBitmap :: "SkBitmap \<Rightarrow> ImageSkia"
  GetEventHandlerForPoint :: "Point \<Rightarrow> View"
  WindowManager :: "WidgetCall \<Rightarrow> Widget \<Rightarrow> Widget"
  DCHECK_LE :: "int \<Rightarrow> int \<Rightarrow> unit option"

subsection \<open>The title bar object\<close>

text \<open>
  \<open>self\<close> is the \<open>views::View\<close> base of the title bar, \<open>heap\<close> holds the views it has
  allocated, \<open>children\<close> lists its child views in the order of \<open>AddChildView\<close>, \<open>widget\<close> is
  what \<open>GetWidget()\<close> returns (\<open>None\<close> for null). The remaining fields are the member
  pointers of the class.
\<close>

record TitleBar =
  self :: View
  background :: SkColor
  widget :: "Widget option"
  heap :: "View list"
  children :: "view_ptr list"
  hamburger_button :: view_ptr
  window_icon :: view_ptr
  window_title :: view_ptr
  minimize_button :: view_ptr
  maximize_button :: view_ptr
  restore_button :: view_ptr
  close_button :: view_ptr

text \<open>
  A pointer is valid when it addresses an allocated view. \<open>view_at tb p\<close> is the view at a
  valid address \<open>p\<close>; \<open>deref\<close> reads through a pointer and is \<open>None\<close> for a null or dangling
  one; \<open>store\<close> writes a view and \<open>modify p f\<close> applies \<open>f\<close> to the view at \<open>p\<close>.
\<close>

definition valid :: "TitleBar \<Rightarrow> view_ptr \<Rightarrow> bool" where
  "valid tb p = (0 < p \<and> p \<le> length (heap tb))"

definition view_at :: "TitleBar \<Rightarrow> view_ptr \<Rightarrow> View" where
  "view_at tb p = heap tb ! (p - 1)"

definition deref :: "TitleBar \<Rightarrow> view_ptr \<Rightarrow> View option" where
  "deref tb p = (if valid tb p then Some (view_at tb p) else None)"

definition store :: "view_ptr \<Rightarrow> View \<Rightarrow> TitleBar \<Rightarrow> TitleBar" where
  "store p v tb = tb\<lparr>heap := (heap tb)[p - 1 := v]\<rparr>"

definition modify :: "view_ptr \<Rightarrow> (View \<Rightarrow> View) \<Rightarrow> TitleBar \<Rightarrow> TitleBar" where
  "modify p f tb = store p (f (view_at tb p)) tb"

definition new_View :: "View \<Rightarrow> TitleBar \<Rightarrow> view_ptr \<times> TitleBar" where
  "new_View v tb = (Suc (length (heap tb)), tb\<lparr>heap := heap tb @ [v]\<rparr>)"

definition AddChildView :: "view_ptr \<Rightarrow> TitleBar \<Rightarrow> TitleBar" where
  "AddChildView p tb = tb\<lparr>children := children tb @ [p]\<rparr>"

text \<open>Methods of a child view, called through a pointer.\<close>

definition SetBoundsRect :: "view_ptr \<Rightarrow> Rect \<Rightarrow> TitleBar \<Rightarrow> TitleBar option" where
  "SetBoundsRect p r tb = do { v \<leftarrow> deref tb p; Some (store p (v\<lparr>view_bounds := r\<rparr>) tb) }"

definition SetBounds :: "view_ptr \<Rightarrow> int \<Rightarrow> int \<Rightarrow> int \<Rightarrow> int \<Rightarrow> TitleBar \<Rightarrow> TitleBar option" where
  "SetBounds p x y w h tb = SetBoundsRect p (gfx_Rect x y (max 0 w) (max 0 h)) tb"

definition SetVisible :: "view_ptr \<Rightarrow> bool \<Rightarrow> TitleBar \<Rightarrow> TitleBar option" where
  "SetVisible p b tb = do { v \<leftarrow> deref tb p; Some (store p (v\<lparr>view_visible := b\<rparr>) tb) }"

definition SetText :: "view_ptr \<Rightarrow> string \<Rightarrow> TitleBar \<Rightarrow> TitleBar option" where
  "SetText p s tb = do { v \<leftarrow> deref tb p; Some (store p (v\<lparr>label_text := s\<rparr>) tb) }"

definition bounds :: "TitleBar \<Rightarrow> view_ptr \<Rightarrow> Rect option" where
  "bounds tb p = map_option view_bounds (deref tb p)"

definition View_x :: "TitleBar \<Rightarrow> view_ptr \<Rightarrow> int option" where
  "View_x tb p = map_option Rect_x (bounds tb p)"


text \<open>\<open>width()\<close> and \<open>height()\<close> of a view are the extents of its bounds.\<close>

definition width :: "View \<Rightarrow> int" where
  "width v = int (Rect_width (view_bounds v))"

definition height :: "View \<Rightarrow> int" where
  "height v = int (Rect_height (view_bounds v))"

definition GetID :: "View \<Rightarrow> ViewID" where
  "GetID v = view_id v"

subsection \<open>GetWindowIcon and IconView\<close>

definition GetWindowIcon :: "Env \<Rightarrow> ImageSkia" where
  "GetWindowIcon e =
     (case LoadIcon e of
        None \<Rightarrow> ImageSkia_ctor
      | Some icon_handle \<Rightarrow>
          (let icon_bitmap = CreateSkBitmapFromHICON e icon_handle in
           if SkBitmap_isNull icon_bitmap then ImageSkia_ctor
           else CreateFrom1xBitmap e icon_bitmap))"

definition IconView_ctor :: View where
  "IconView_ctor = View_ctor"

definition Label_ctor :: "string \<Rightarrow> View" where
  "Label_ctor s = View_ctor\<lparr>label_text := s\<rparr>"

definition IconView_CalculatePreferredSize :: Size where
  "IconView_CalculatePreferredSize = gfx_Size kFaviconSize kFaviconSize"

text \<open>
  The first half of \<open>IconView::PaintIcon\<close>: the size \<open>(dest_w, dest_h)\<close> of the scaled
  image. \<open>this\<close> is the icon view.
\<close>

definition IconView_dest_size :: "'f FloatOps \<Rightarrow> View \<Rightarrow> ImageSkia \<Rightarrow> int \<times> int" where
  "IconView_dest_size f this img =
     (let float_src_w = float_of_int f (ImageSkia_width img);
          float_src_h = float_of_int f (ImageSkia_height img);
          (scalable_w, scalable_h) =
            (if ImageSkia_width img \<le> kFaviconSize \<and> ImageSkia_height img \<le> kFaviconSize
             then (float_of_int f kFaviconSize, float_of_int f kFaviconSize)
             else (float_src_w, float_src_h));
          scale = float_min f (float_div f (float_of_int f (width this)) scalable_w)
                              (float_div f (float_of_int f (height this)) scalable_h);
          dest_w = int_of_float f (float_mul f float_src_w scale);
          dest_h = int_of_float f (float_mul f float_src_h scale)
      in (dest_w, dest_h))"

definition IconView_PaintIcon :: "'f FloatOps \<Rightarrow> View \<Rightarrow> Canvas \<Rightarrow> ImageSkia \<Rightarrow> Canvas" where
  "IconView_PaintIcon f this canvas img =
     (let (dest_w, dest_h) = IconView_dest_size f this img in
      canvas @ [DrawImageInt img 0 0 (ImageSkia_width img) (ImageSkia_height img)
                  (cpp_div (width this - dest_w) 2) (cpp_div (height this - dest_h) 2)
                  dest_w dest_h True])"

definition IconView_PaintButtonContents :: "Env \<Rightarrow> 'f FloatOps \<Rightarrow> View \<Rightarrow> Canvas \<Rightarrow> Canvas" where
  "IconView_PaintButtonContents e f this canvas =
     (let icon = GetWindowIcon e in
      if \<not> ImageSkia_isNull icon then IconView_PaintIcon f this canvas icon else canvas)"

subsection \<open>TitleBar: colours, construction, height, hit test\<close>

definition GetWidget :: "TitleBar \<Rightarrow> Widget option" where
  "GetWidget tb = widget tb"

definition GetFrameColor :: "TitleBar \<Rightarrow> SkColor" where
  "GetFrameColor tb =
     (let color_id =
            (if (case GetWidget tb of None \<Rightarrow> False | Some w \<Rightarrow> ShouldPaintAsActive w)
             then COLOR_FRAME else COLOR_FRAME_INACTIVE);
          theme_provider = (case GetWidget tb of None \<Rightarrow> None | Some w \<Rightarrow> GetThemeProvider w)
      in case theme_provider of Some GetColor \<Rightarrow> GetColor color_id | None \<Rightarrow> SK_ColorWHITE)"

definition UpdateViewColors :: "TitleBar \<Rightarrow> TitleBar" where
  "UpdateViewColors tb = tb\<lparr>background := GetFrameColor tb\<rparr>"

definition CreateCaptionButton :: "Env \<Rightarrow> ViewID \<Rightarrow> ResourceID \<Rightarrow> TitleBar \<Rightarrow> view_ptr \<times> TitleBar" where
  "CreateCaptionButton e button_type accessible_name_resource_id tb =
     (let (button, tb) =
            new_View (WindowsCaptionButton e button_type
                        (GetStringUTF16 e accessible_name_resource_id)) tb;
          tb = AddChildView button tb
      in (button, tb))"

text \<open>
  The constructor. A \<open>views::View\<close> starts with empty bounds, no children and no widget;
  the member pointers are null until they are assigned. \<open>SetID\<close> on the label just
  allocated is a \<open>modify\<close>. The box layout manager that the constructor installs is not
  represented: \<open>Layout\<close> is overridden and never consults it.
\<close>

definition TitleBar_ctor :: "Env \<Rightarrow> TitleBar" where
  "TitleBar_ctor e =
     (let tb = \<lparr>self = View_ctor, background = 0, widget = None, heap = [], children = [],
                hamburger_button = nullptr, window_icon = nullptr, window_title = nullptr,
                minimize_button = nullptr, maximize_button = nullptr,
                restore_button = nullptr, close_button = nullptr\<rparr>;
          tb = UpdateViewColors tb;
          (p, tb) = CreateCaptionButton e VIEW_ID_HAMBURGER_BUTTON IDS_APP_ACCNAME_HAMBURGER tb;
          tb = tb\<lparr>hamburger_button := p\<rparr>;
          (p, tb) = new_View IconView_ctor tb;
          tb = tb\<lparr>window_icon := p\<rparr>;
          tb = AddChildView (window_icon tb) tb;
          (p, tb) = new_View (Label_ctor []) tb;
          tb = tb\<lparr>window_title := p\<rparr>;
          tb = modify (window_title tb) (\<lambda>v. v\<lparr>view_id := VIEW_ID_WINDOW_TITLE\<rparr>) tb;
          tb = AddChildView (window_title tb) tb;
          (p, tb) = CreateCaptionButton e VIEW_ID_MINIMIZE_BUTTON IDS_APP_ACCNAME_MINIMIZE tb;
          tb = tb\<lparr>minimize_button := p\<rparr>;
          (p, tb) = CreateCaptionButton e VIEW_ID_MAXIMIZE_BUTTON IDS_APP_ACCNAME_MAXIMIZE tb;
          tb = tb\<lparr>maximize_button := p\<rparr>;
          (p, tb) = CreateCaptionButton e VIEW_ID_RESTORE_BUTTON IDS_APP_ACCNAME_RESTORE tb;
          tb = tb\<lparr>restore_button := p\<rparr>;
          (p, tb) = CreateCaptionButton e VIEW_ID_CLOSE_BUTTON IDS_APP_ACCNAME_CLOSE tb;
          tb = tb\<lparr>close_button := p\<rparr>
      in tb)"

definition Height :: "Env \<Rightarrow> TitleBar \<Rightarrow> int" where
  "Height e tb =
     GetSystemMetricsInDIP e SM_CYCAPTION +
     GetSystemMetricsInDIP e SM_CYSIZEFRAME +
     (if (case GetWidget tb of None \<Rightarrow> False | Some w \<Rightarrow> IsMaximized w)
      then 0
      else GetSystemMetricsInDIP e SM_CYEDGE)"

definition NonClientHitTest :: "Env \<Rightarrow> TitleBar \<Rightarrow> Point \<Rightarrow> HitTest" where
  "NonClientHitTest e tb point =
     (if Rect_Contains (view_bounds (self tb)) point then
        (case GetID (GetEventHandlerForPoint e point) of
           VIEW_ID_MINIMIZE_BUTTON \<Rightarrow> HTCLIENT
         | VIEW_ID_MAXIMIZE_BUTTON \<Rightarrow> HTCLIENT
         | VIEW_ID_RESTORE_BUTTON \<Rightarrow> HTCLIENT
         | VIEW_ID_CLOSE_BUTTON \<Rightarrow> HTCLIENT
         | _ \<Rightarrow> HTCAPTION)
      else HTNOWHERE)"

subsection \<open>TitleBar: button presses\<close>

definition ButtonPressed :: "Env \<Rightarrow> view_ptr \<Rightarrow> 'ev \<Rightarrow> TitleBar \<Rightarrow> TitleBar option" where
  "ButtonPressed e sender event tb =
     (if sender = minimize_button tb then
        do { w \<leftarrow> GetWidget tb; Some (tb\<lparr>widget := Some (WindowManager e Minimize w)\<rparr>) }
      else if sender = maximize_button tb then
        do { w \<leftarrow> GetWidget tb; Some (tb\<lparr>widget := Some (WindowManager e Maximize w)\<rparr>) }
      else if sender = restore_button tb then
        do { w \<leftarrow> GetWidget tb; Some (tb\<lparr>widget := Some (WindowManager e Restore w)\<rparr>) }
      else if sender = close_button tb then
        do { w \<leftarrow> GetWidget tb;
             Some (tb\<lparr>widget := Some (WindowManager e (CloseWithReason kCloseButtonClicked) w)\<rparr>) }
      else Some tb)"

subsection \<open>TitleBar: layout\<close>

definition ShowTitle :: "TitleBar \<Rightarrow> bool" where
  "ShowTitle tb = True"

definition ShowIcon :: "TitleBar \<Rightarrow> bool" where
  "ShowIcon tb = False"

definition ShowHamburgerMenu :: "TitleBar \<Rightarrow> bool" where
  "ShowHamburgerMenu tb = True"

definition kMaximizedLeftMargin :: int where
  "kMaximizedLeftMargin = 2"

definition kIconTitleSpacing :: int where
  "kIconTitleSpacing = 5"

definition kMinimumTitleLeftBorderMargin :: int where
  "kMinimumTitleLeftBorderMargin = 11"

definition LayoutCaptionButton :: "Env \<Rightarrow> view_ptr \<Rightarrow> int \<Rightarrow> TitleBar \<Rightarrow> TitleBar option" where
  "LayoutCaptionButton e button previous_button_x tb =
     (let button_size = GetPreferredSize e button in
      SetBounds button (previous_button_x - int (Size_width button_size)) 0
        (int (Size_width button_size)) (int (Size_height button_size)) tb)"

definition LayoutCaptionButtons :: "Env \<Rightarrow> TitleBar \<Rightarrow> TitleBar option" where
  "LayoutCaptionButtons e tb =
     do {
       tb \<leftarrow> LayoutCaptionButton e (close_button tb) (width (self tb)) tb;

       close_x \<leftarrow> View_x tb (close_button tb);
       tb \<leftarrow> LayoutCaptionButton e (restore_button tb) close_x tb;
       w \<leftarrow> GetWidget tb;
       tb \<leftarrow> SetVisible (restore_button tb) (IsMaximized w) tb;

       close_x \<leftarrow> View_x tb (close_button tb);
       tb \<leftarrow> LayoutCaptionButton e (maximize_button tb) close_x tb;
       w \<leftarrow> GetWidget tb;
       tb \<leftarrow> SetVisible (maximize_button tb) (\<not> IsMaximized w) tb;

       maximize_x \<leftarrow> View_x tb (maximize_button tb);
       LayoutCaptionButton e (minimize_button tb) maximize_x tb
     }"

definition LayoutTitleBar :: "Env \<Rightarrow> TitleBar \<Rightarrow> TitleBar option" where
  "LayoutTitleBar e tb =
     (if \<not> ShowIcon tb \<and> \<not> ShowTitle tb then Some tb
      else do {
        let icon_size = GetSystemMetricsInDIP e SM_CYSMICON;
        let next_leading_x = GetSystemMetricsInDIP e SM_CXSIZEFRAME;
        w \<leftarrow> GetWidget tb;
        let next_leading_x =
          (if IsMaximized w then next_leading_x + kMaximizedLeftMargin else next_leading_x);
        next_trailing_x \<leftarrow> View_x tb (minimize_button tb);

        let y = cpp_div (Height e tb - icon_size) 2;
        let window_icon_bounds = gfx_Rect next_leading_x y icon_size icon_size;

        (tb, next_leading_x) \<leftarrow>
          (if ShowIcon tb then do {
             tb \<leftarrow> SetBoundsRect (window_icon tb) window_icon_bounds tb;
             Some (tb, Rect_right window_icon_bounds + kIconTitleSpacing)
           } else if ShowHamburgerMenu tb then do {
             let button_size = GetPreferredSize e (hamburger_button tb);
             tb \<leftarrow> SetBounds (hamburger_button tb) 0 0
                    (int (Size_width button_size)) (int (Size_height button_size)) tb;
             hamburger_bounds \<leftarrow> bounds tb (hamburger_button tb);
             Some (tb, Rect_right hamburger_bounds + kIconTitleSpacing)
           } else Some (tb, next_leading_x));

        if ShowTitle tb then do {
          next_leading_x \<leftarrow>
            (if \<not> ShowIcon tb \<and> \<not> ShowHamburgerMenu tb then do {
               _ \<leftarrow> DCHECK_LE e next_leading_x kMinimumTitleLeftBorderMargin;
               Some kMinimumTitleLeftBorderMargin
             } else Some next_leading_x);
          w \<leftarrow> GetWidget tb;
          tb \<leftarrow> SetText (window_title tb) (GetWindowTitle w) tb;
          let max_text_width = max 0 (next_trailing_x - next_leading_x);
          SetBounds (window_title tb) next_leading_x (Rect_y window_icon_bounds)
            max_text_width (int (Rect_height window_icon_bounds)) tb
        } else Some tb
      })"

definition Layout :: "Env \<Rightarrow> TitleBar \<Rightarrow> TitleBar option" where
  "Layout e tb =
     (if GetWidget tb \<noteq> None then
        do { tb \<leftarrow> LayoutCaptionButtons e tb; LayoutTitleBar e tb }
      else Some tb)"

text \<open>
  \<open>AddedToWidget\<close> lays the title bar out and then registers it as an observer of the
  widget, which dereferences \<open>GetWidget()\<close>. The list of observers is not represented.
\<close>

definition AddedToWidget :: "Env \<Rightarrow> TitleBar \<Rightarrow> TitleBar option" where
  "AddedToWidget e tb = do { tb \<leftarrow> Layout e tb; _ \<leftarrow> GetWidget tb; Some tb }"

definition OnWidgetActivationChanged :: "Env \<Rightarrow> TitleBar \<Rightarrow> TitleBar option" where
  "OnWidgetActivationChanged e tb = Layout e (UpdateViewColors tb)"

definition UpdateWindowIcon :: "Env \<Rightarrow> TitleBar \<Rightarrow> TitleBar option" where
  "UpdateWindowIcon e tb = Layout e tb"

definition UpdateWindowTitle :: "Env \<Rightarrow> TitleBar \<Rightarrow> TitleBar option" where
  "UpdateWindowTitle e tb = Layout e tb"

subsection \<open>Well-formed title bars\<close>

text \<open>
  The constructor leaves the seven member pointers valid and pairwise different, and no
  function of the file reassigns them or frees a view: this is the invariant
  \<open>TitleBar_invariant\<close>.
\<close>

definition members :: "TitleBar \<Rightarrow> view_ptr list" where
  "members tb =
     [hamburger_button tb, window_icon tb, window_title tb, minimize_button tb,
      maximize_button tb, restore_button tb, close_button tb]"

definition TitleBar_invariant :: "TitleBar \<Rightarrow> bool" where
  "TitleBar_invariant tb = (distinct (members tb) \<and> list_all (valid tb) (members tb))"

text \<open>The rectangle \<open>LayoutCaptionButton\<close> gives a button whose right neighbour starts at \<open>px\<close>.\<close>

definition caption_button_bounds :: "Env \<Rightarrow> view_ptr \<Rightarrow> int \<Rightarrow> Rect" where
  "caption_button_bounds e p px =
     \<lparr>Rect_x = px - int (Size_width (GetPreferredSize e p)), Rect_y = 0,
      Rect_width = Size_width (GetPreferredSize e p),
      Rect_height = Size_height (GetPreferredSize e p)\<rparr>"

text \<open>
  The title bar that \<open>LayoutCaptionButtons\<close> leaves behind when every member pointer is valid
  and the widget is \<open>w\<close>: six assignments to the four caption buttons.
\<close>

definition after_LayoutCaptionButtons :: "Env \<Rightarrow> Widget \<Rightarrow> TitleBar \<Rightarrow> TitleBar" where
  "after_LayoutCaptionButtons e w tb =
     (let close_x = width (self tb) - int (Size_width (GetPreferredSize e (close_button tb)));
          maximize_x = close_x - int (Size_width (GetPreferredSize e (maximize_button tb)))
      in modify (minimize_button tb)
           (\<lambda>v. v\<lparr>view_bounds := caption_button_bounds e (minimize_button tb) maximize_x\<rparr>)
        (modify (maximize_button tb) (\<lambda>v. v\<lparr>view_visible := \<not> IsMaximized w\<rparr>)
        (modify (maximize_button tb)
           (\<lambda>v. v\<lparr>view_bounds := caption_button_bounds e (maximize_button tb) close_x\<rparr>)
        (modify (restore_button tb) (\<lambda>v. v\<lparr>view_visible := IsMaximized w\<rparr>)
        (modify (restore_button tb)
           (\<lambda>v. v\<lparr>view_bounds := caption_button_bounds e (restore_button tb) close_x\<rparr>)
        (modify (close_button tb)
           (\<lambda>v. v\<lparr>view_bounds := caption_button_bounds e (close_button tb) (width (self tb))\<rparr>)
           tb))))))"

text \<open>The rectangles \<open>LayoutTitleBar\<close> gives the hamburger button and the title label.\<close>

definition hamburger_bounds :: "Env \<Rightarrow> TitleBar \<Rightarrow> Rect" where
  "hamburger_bounds e tb =
     \<lparr>Rect_x = 0, Rect_y = 0,
      Rect_width = Size_width (GetPreferredSize e (hamburger_button tb)),
      Rect_height = Size_height (GetPreferredSize e (hamburger_button tb))\<rparr>"

definition title_bounds :: "Env \<Rightarrow> TitleBar \<Rightarrow> int \<Rightarrow> Rect" where
  "title_bounds e tb next_trailing_x =
     \<lparr>Rect_x = int (Size_width (GetPreferredSize e (hamburger_button tb))) + kIconTitleSpacing,
      Rect_y = cpp_div (Height e tb - GetSystemMetricsInDIP e SM_CYSMICON) 2,
      Rect_width =
        nat (next_trailing_x -
             (int (Size_width (GetPreferredSize e (hamburger_button tb))) + kIconTitleSpacing)),
      Rect_height = nat (GetSystemMetricsInDIP e SM_CYSMICON)\<rparr>"

definition after_LayoutTitleBar :: "Env \<Rightarrow> Widget \<Rightarrow> TitleBar \<Rightarrow> TitleBar" where
  "after_LayoutTitleBar e w tb =
     modify (window_title tb)
       (\<lambda>v. v\<lparr>view_bounds :=
               title_bounds e tb (Rect_x (view_bounds (view_at tb (minimize_button tb))))\<rparr>)
    (modify (window_title tb) (\<lambda>v. v\<lparr>label_text := GetWindowTitle w\<rparr>)
    (modify (hamburger_button tb) (\<lambda>v. v\<lparr>view_bounds := hamburger_bounds e tb\<rparr>) tb))"

subsection \<open>A concrete title bar\<close>

text \<open>
  An environment with the screen metrics of a 96 dpi display, caption buttons of 46 by
  29 pixels that carry their button type as view id, and a window manager that maximizes,
  restores and records every call; a
  restored widget; and the title bar constructed in that environment, attached to the
  widget and 800 pixels wide. \<open>DCHECK_LE\<close> is the one of a build with
  DCHECKs on.
\<close>

definition env_example :: Env where
  "env_example =
     \<lparr>GetSystemMetricsInDIP =
        (\<lambda>m. case m of SM_CYCAPTION \<Rightarrow> 23 | SM_CYSIZEFRAME \<Rightarrow> 4 | SM_CYEDGE \<Rightarrow> 2
                      | SM_CYSMICON \<Rightarrow> 16 | SM_CXSIZEFRAME \<Rightarrow> 4),
      GetStringUTF16 = (\<lambda>r. ''name''),
      WindowsCaptionButton = (\<lambda>button_type name. View_ctor\<lparr>view_id := button_type\<rparr>),
      GetPreferredSize = (\<lambda>p. gfx_Size 46 29),
      LoadIcon = None,
      CreateSkBitmapFromHICON =
        (\<lambda>h. \<lparr>SkBitmap_isNull = (h = 0), SkBitmap_width = 32, SkBitmap_height = 32\<rparr>),
      CreateFrom1xBitmap =
        (\<lambda>b. \<lparr>ImageSkia_isNull = False, ImageSkia_width = SkBitmap_width b,
               ImageSkia_height = SkBitmap_height b\<rparr>),
      GetEventHandlerForPoint =
        (\<lambda>p. if Point_x p \<ge> 754 then View_ctor\<lparr>view_id := VIEW_ID_CLOSE_BUTTON\<rparr> else View_ctor),
      WindowManager =
        (\<lambda>c w. (case c of Maximize \<Rightarrow> w\<lparr>IsMaximized := True\<rparr>
                         | Restore \<Rightarrow> w\<lparr>IsMaximized := False\<rparr>
                         | _ \<Rightarrow> w)\<lparr>received := received w @ [c]\<rparr>),
      DCHECK_LE = (\<lambda>a b. if a \<le> b then Some () else None)\<rparr>"

text \<open>
  Exact arithmetic on the reals in the place of single precision. It agrees with
  single precision wherever no rounding occurs. The conversion to \<open>int\<close> truncates.
\<close>

definition float_example :: "real FloatOps" where
  "float_example =
     \<lparr>float_of_int = of_int, float_div = (\<lambda>a b. a / b), float_mul = (\<lambda>a b. a * b),
      float_min = min, int_of_float = (\<lambda>a. if 0 \<le> a then \<lfloor>a\<rfloor> else \<lceil>a\<rceil>)\<rparr>"

definition widget_example :: Widget where
  "widget_example =
     \<lparr>IsMaximized = False, ShouldPaintAsActive = True, GetWindowTitle = ''Title'',
      GetThemeProvider = None, received = []\<rparr>"

definition title_bar_example :: TitleBar where
  "title_bar_example =
     (TitleBar_ctor env_example)
       \<lparr>self := View_ctor\<lparr>view_bounds := gfx_Rect 0 0 800 29\<rparr>, widget := Some widget_example\<rparr>"

section \<open>Lemmas about the heap of views\<close>

lemma modify_fields [simp]:
  "self (modify p f tb) = self tb"
  "background (modify p f tb) = background tb"
  "widget (modify p f tb) = widget tb"
  "children (modify p f tb) = children tb"
  "hamburger_button (modify p f tb) = hamburger_button tb"
  "window_icon (modify p f tb) = window_icon tb"
  "window_title (modify p f tb) = window_title tb"
  "minimize_button (modify p f tb) = minimize_button tb"
  "maximize_button (modify p f tb) = maximize_button tb"
  "restore_button (modify p f tb) = restore_button tb"
  "close_button (modify p f tb) = close_button tb"
  "length (heap (modify p f tb)) = length (heap tb)"
  by (simp_all add: modify_def store_def)

lemma valid_modify [simp]: "valid (modify p f tb) q = valid tb q"
  by (simp add: valid_def)

lemma deref_valid: "valid tb p \<Longrightarrow> deref tb p = Some (view_at tb p)"
  by (simp add: deref_def)

lemma deref_invalid: "\<not> valid tb p \<Longrightarrow> deref tb p = None"
  by (simp add: deref_def)

lemma view_at_modify:
  "valid tb p \<Longrightarrow> valid tb q \<Longrightarrow>
   view_at (modify p f tb) q = (if q = p then f (view_at tb p) else view_at tb q)"
  by (auto simp: valid_def view_at_def modify_def store_def nth_list_update)

lemma deref_modify:
  "valid tb p \<Longrightarrow>
   deref (modify p f tb) q = (if q = p then Some (f (view_at tb p)) else deref tb q)"
  by (cases "valid tb q") (auto simp: deref_valid deref_invalid view_at_modify)

lemma SetBoundsRect_valid:
  "valid tb p \<Longrightarrow> SetBoundsRect p r tb = Some (modify p (\<lambda>v. v\<lparr>view_bounds := r\<rparr>) tb)"
  by (simp add: SetBoundsRect_def deref_valid modify_def)

lemma SetVisible_valid:
  "valid tb p \<Longrightarrow> SetVisible p b tb = Some (modify p (\<lambda>v. v\<lparr>view_visible := b\<rparr>) tb)"
  by (simp add: SetVisible_def deref_valid modify_def)

lemma SetText_valid:
  "valid tb p \<Longrightarrow> SetText p s tb = Some (modify p (\<lambda>v. v\<lparr>label_text := s\<rparr>) tb)"
  by (simp add: SetText_def deref_valid modify_def)

lemma LayoutCaptionButton_valid:
  "valid tb p \<Longrightarrow>
   LayoutCaptionButton e p px tb =
     Some (modify p (\<lambda>v. v\<lparr>view_bounds := caption_button_bounds e p px\<rparr>) tb)"
  by (simp add: LayoutCaptionButton_def SetBounds_def SetBoundsRect_valid gfx_Rect_def Let_def
      caption_button_bounds_def)

lemma invariant_valid:
  assumes "TitleBar_invariant tb"
  shows "valid tb (hamburger_button tb)" "valid tb (window_icon tb)" "valid tb (window_title tb)"
    "valid tb (minimize_button tb)" "valid tb (maximize_button tb)"
    "valid tb (restore_button tb)" "valid tb (close_button tb)"
  using assms by (simp_all add: TitleBar_invariant_def members_def)

lemma invariant_distinct:
  assumes "TitleBar_invariant tb"
  shows "distinct [hamburger_button tb, window_icon tb, window_title tb, minimize_button tb,
      maximize_button tb, restore_button tb, close_button tb]"
  using assms by (simp add: TitleBar_invariant_def members_def)

lemma View_x_modify_bounds:
  "valid tb p \<Longrightarrow> View_x (modify p (\<lambda>v. v\<lparr>view_bounds := r\<rparr>) tb) p = Some (Rect_x r)"
  by (simp add: View_x_def bounds_def deref_modify)

lemma View_x_modify_other:
  "valid tb p \<Longrightarrow> q \<noteq> p \<Longrightarrow> View_x (modify p f tb) q = View_x tb q"
  by (simp add: View_x_def bounds_def deref_modify)

lemma View_x_modify_visible:
  "valid tb p \<Longrightarrow> View_x (modify p (\<lambda>v. v\<lparr>view_visible := b\<rparr>) tb) q = View_x tb q"
  by (simp add: View_x_def bounds_def deref_modify deref_valid)

lemma LayoutCaptionButtons_closed:
  assumes inv: "TitleBar_invariant tb" and w: "widget tb = Some w"
  shows "LayoutCaptionButtons e tb = Some (after_LayoutCaptionButtons e w tb)"
proof -
  note v = invariant_valid [OF inv]
  from invariant_distinct [OF inv]
  have d: "close_button tb \<noteq> restore_button tb" "close_button tb \<noteq> maximize_button tb"
    "maximize_button tb \<noteq> restore_button tb"
    by auto
  show ?thesis
    unfolding LayoutCaptionButtons_def after_LayoutCaptionButtons_def Let_def
    by (simp add: v d w GetWidget_def LayoutCaptionButton_valid SetVisible_valid
        View_x_modify_bounds View_x_modify_other View_x_modify_visible caption_button_bounds_def)
qed


lemma invariant_neq:
  assumes "TitleBar_invariant tb"
  shows "hamburger_button tb \<noteq> window_icon tb" "hamburger_button tb \<noteq> window_title tb"
    "hamburger_button tb \<noteq> minimize_button tb" "hamburger_button tb \<noteq> maximize_button tb"
    "hamburger_button tb \<noteq> restore_button tb" "hamburger_button tb \<noteq> close_button tb"
    "window_icon tb \<noteq> window_title tb" "window_icon tb \<noteq> minimize_button tb"
    "window_icon tb \<noteq> maximize_button tb" "window_icon tb \<noteq> restore_button tb"
    "window_icon tb \<noteq> close_button tb"
    "window_title tb \<noteq> minimize_button tb" "window_title tb \<noteq> maximize_button tb"
    "window_title tb \<noteq> restore_button tb" "window_title tb \<noteq> close_button tb"
    "minimize_button tb \<noteq> maximize_button tb" "minimize_button tb \<noteq> restore_button tb"
    "minimize_button tb \<noteq> close_button tb"
    "maximize_button tb \<noteq> restore_button tb" "maximize_button tb \<noteq> close_button tb"
    "restore_button tb \<noteq> close_button tb"
  using assms by (simp_all add: TitleBar_invariant_def members_def)

lemma after_LayoutCaptionButtons_fields [simp]:
  "self (after_LayoutCaptionButtons e w tb) = self tb"
  "background (after_LayoutCaptionButtons e w tb) = background tb"
  "widget (after_LayoutCaptionButtons e w tb) = widget tb"
  "children (after_LayoutCaptionButtons e w tb) = children tb"
  "hamburger_button (after_LayoutCaptionButtons e w tb) = hamburger_button tb"
  "window_icon (after_LayoutCaptionButtons e w tb) = window_icon tb"
  "window_title (after_LayoutCaptionButtons e w tb) = window_title tb"
  "minimize_button (after_LayoutCaptionButtons e w tb) = minimize_button tb"
  "maximize_button (after_LayoutCaptionButtons e w tb) = maximize_button tb"
  "restore_button (after_LayoutCaptionButtons e w tb) = restore_button tb"
  "close_button (after_LayoutCaptionButtons e w tb) = close_button tb"
  "valid (after_LayoutCaptionButtons e w tb) q = valid tb q"
  by (simp_all add: after_LayoutCaptionButtons_def Let_def)

lemma invariant_after_LayoutCaptionButtons [simp]:
  "TitleBar_invariant (after_LayoutCaptionButtons e w tb) = TitleBar_invariant tb"
  by (simp add: TitleBar_invariant_def members_def)

lemma deref_after_LayoutCaptionButtons:
  assumes inv: "TitleBar_invariant tb"
  shows "deref (after_LayoutCaptionButtons e w tb) q =
     (if q = close_button tb then
        Some ((view_at tb q)\<lparr>view_bounds := caption_button_bounds e q (width (self tb))\<rparr>)
      else if q = restore_button tb then
        Some ((view_at tb q)
          \<lparr>view_bounds := caption_button_bounds e q
             (width (self tb) - int (Size_width (GetPreferredSize e (close_button tb)))),
           view_visible := IsMaximized w\<rparr>)
      else if q = maximize_button tb then
        Some ((view_at tb q)
          \<lparr>view_bounds := caption_button_bounds e q
             (width (self tb) - int (Size_width (GetPreferredSize e (close_button tb)))),
           view_visible := \<not> IsMaximized w\<rparr>)
      else if q = minimize_button tb then
        Some ((view_at tb q)
          \<lparr>view_bounds := caption_button_bounds e q
             (width (self tb) - int (Size_width (GetPreferredSize e (close_button tb)))
                - int (Size_width (GetPreferredSize e (maximize_button tb))))\<rparr>)
      else deref tb q)"
proof -
  note v = invariant_valid [OF inv]
  note d = invariant_neq [OF inv] invariant_neq [OF inv, symmetric]
  show ?thesis
    unfolding after_LayoutCaptionButtons_def Let_def
    by (simp add: v d deref_modify deref_valid view_at_modify)
qed

lemma nat_max_0: "nat (max 0 i) = nat i"
  by (simp add: max_def)

lemma LayoutTitleBar_closed:
  assumes inv: "TitleBar_invariant tb" and w: "widget tb = Some w"
  shows "LayoutTitleBar e tb = Some (after_LayoutTitleBar e w tb)"
proof -
  note v = invariant_valid [OF inv]
  note d = invariant_neq [OF inv] invariant_neq [OF inv, symmetric]
  show ?thesis
    unfolding LayoutTitleBar_def after_LayoutTitleBar_def
    by (simp add: v d w GetWidget_def ShowIcon_def ShowTitle_def ShowHamburgerMenu_def
        SetBounds_def SetBoundsRect_valid SetText_valid View_x_def bounds_def deref_valid
        deref_modify view_at_modify gfx_Rect_def Rect_right_def nat_max_0 hamburger_bounds_def title_bounds_def Let_def
        Height_def)
qed

lemma after_LayoutTitleBar_fields [simp]:
  "self (after_LayoutTitleBar e w tb) = self tb"
  "background (after_LayoutTitleBar e w tb) = background tb"
  "widget (after_LayoutTitleBar e w tb) = widget tb"
  "children (after_LayoutTitleBar e w tb) = children tb"
  "hamburger_button (after_LayoutTitleBar e w tb) = hamburger_button tb"
  "window_icon (after_LayoutTitleBar e w tb) = window_icon tb"
  "window_title (after_LayoutTitleBar e w tb) = window_title tb"
  "minimize_button (after_LayoutTitleBar e w tb) = minimize_button tb"
  "maximize_button (after_LayoutTitleBar e w tb) = maximize_button tb"
  "restore_button (after_LayoutTitleBar e w tb) = restore_button tb"
  "close_button (after_LayoutTitleBar e w tb) = close_button tb"
  "valid (after_LayoutTitleBar e w tb) q = valid tb q"
  by (simp_all add: after_LayoutTitleBar_def)

lemma deref_after_LayoutTitleBar:
  assumes inv: "TitleBar_invariant tb"
  shows "deref (after_LayoutTitleBar e w tb) q =
     (if q = window_title tb then
        Some ((view_at tb q)
          \<lparr>label_text := GetWindowTitle w,
           view_bounds :=
             title_bounds e tb (Rect_x (view_bounds (view_at tb (minimize_button tb))))\<rparr>)
      else if q = hamburger_button tb then
        Some ((view_at tb q)\<lparr>view_bounds := hamburger_bounds e tb\<rparr>)
      else deref tb q)"
proof -
  note v = invariant_valid [OF inv]
  note d = invariant_neq [OF inv] invariant_neq [OF inv, symmetric]
  show ?thesis
    unfolding after_LayoutTitleBar_def
    by (simp add: v d deref_modify deref_valid view_at_modify)
qed

lemma Layout_closed:
  assumes inv: "TitleBar_invariant tb" and w: "widget tb = Some w"
  shows "Layout e tb = Some (after_LayoutTitleBar e w (after_LayoutCaptionButtons e w tb))"
  by (simp add: Layout_def GetWidget_def w LayoutCaptionButtons_closed [OF inv w]
      LayoutTitleBar_closed inv)

text \<open>
  The invariant is kept by a layout pass and by a button press, and does not depend on the
  widget.
\<close>

lemma invariant_after_LayoutTitleBar [simp]:
  "TitleBar_invariant (after_LayoutTitleBar e w tb) = TitleBar_invariant tb"
  by (simp add: TitleBar_invariant_def members_def)

lemma invariant_widget_update [simp]:
  "TitleBar_invariant (tb\<lparr>widget := x\<rparr>) = TitleBar_invariant tb"
  by (simp add: TitleBar_invariant_def members_def valid_def)

lemma Layout_invariant:
  assumes "TitleBar_invariant tb"
  shows "\<exists>tb'. Layout e tb = Some tb' \<and> TitleBar_invariant tb' \<and> widget tb' = widget tb"
proof (cases "widget tb")
  case None
  with assms show ?thesis by (simp add: Layout_def GetWidget_def)
next
  case (Some w)
  with assms show ?thesis by (simp add: Layout_closed)
qed

lemma ButtonPressed_invariant:
  assumes "TitleBar_invariant tb" and "ButtonPressed e sender event tb = Some tb'"
  shows "TitleBar_invariant tb'"
proof (cases "GetWidget tb")
  case None
  with assms show ?thesis
    by (simp add: ButtonPressed_def split: if_splits)
next
  case (Some w)
  with assms show ?thesis
    by (auto simp: ButtonPressed_def split: if_splits)
qed


subsection \<open>The constructed title bar\<close>

lemmas ctor_defs =
  TitleBar_ctor_def CreateCaptionButton_def new_View_def AddChildView_def modify_def store_def
  view_at_def UpdateViewColors_def nullptr_def Let_def

lemma ctor_members:
  "hamburger_button (TitleBar_ctor e) = 1" "window_icon (TitleBar_ctor e) = 2"
  "window_title (TitleBar_ctor e) = 3" "minimize_button (TitleBar_ctor e) = 4"
  "maximize_button (TitleBar_ctor e) = 5" "restore_button (TitleBar_ctor e) = 6"
  "close_button (TitleBar_ctor e) = 7"
  by (simp_all add: ctor_defs)

lemma ctor_heap_length: "length (heap (TitleBar_ctor e)) = 7"
  by (simp add: ctor_defs)

lemma ctor_children: "children (TitleBar_ctor e) = [1, 2, 3, 4, 5, 6, 7]"
  by (simp add: ctor_defs)

lemma ctor_widget: "widget (TitleBar_ctor e) = None"
  by (simp add: ctor_defs)

lemma ctor_invariant: "TitleBar_invariant (TitleBar_ctor e)"
  by (simp add: TitleBar_invariant_def members_def valid_def ctor_members ctor_heap_length)

lemma ctor_icon: "deref (TitleBar_ctor e) (window_icon (TitleBar_ctor e)) = Some View_ctor"
  by (simp add: deref_def valid_def ctor_members ctor_heap_length)
    (simp add: ctor_defs IconView_ctor_def)

lemma example_members:
  "hamburger_button title_bar_example = 1" "window_icon title_bar_example = 2"
  "window_title title_bar_example = 3" "minimize_button title_bar_example = 4"
  "maximize_button title_bar_example = 5" "restore_button title_bar_example = 6"
  "close_button title_bar_example = 7"
  by (simp_all add: title_bar_example_def ctor_members)

lemma example_invariant: "TitleBar_invariant title_bar_example"
  using ctor_invariant [of env_example]
  by (simp add: TitleBar_invariant_def members_def valid_def title_bar_example_def)

lemma example_widget: "widget title_bar_example = Some widget_example"
  by (simp add: title_bar_example_def)

lemma example_rects:
  "hamburger_bounds env_example title_bar_example = gfx_Rect 0 0 46 29"
  "caption_button_bounds env_example p px = gfx_Rect (px - 46) 0 46 29"
  "title_bounds env_example title_bar_example ntx = gfx_Rect 51 6 (ntx - 51) 16"
  "width (self title_bar_example) = 800"
  "Size_width (GetPreferredSize env_example p) = 46"
  by (simp_all add: hamburger_bounds_def caption_button_bounds_def title_bounds_def Height_def
      GetWidget_def example_widget widget_example_def env_example_def gfx_Size_def gfx_Rect_def
      kIconTitleSpacing_def cpp_div_def title_bar_example_def width_def)

lemma example_icon:
  "deref title_bar_example (window_icon title_bar_example) = Some View_ctor"
  using ctor_icon [of env_example]
  by (simp add: deref_def valid_def view_at_def title_bar_example_def ctor_members
      ctor_heap_length)


section \<open>Button presses\<close>

text \<open>
  C2. \<open>TitleBar::ButtonPressed\<close> is a four-way dispatch on the identity of the sender: on a
  title bar whose member pointers are those of the constructor (valid and pairwise
  different) and that has a widget, a press of the minimize button calls \<open>Minimize\<close> on the
  widget, of the maximize button \<open>Maximize\<close>, of the restore button \<open>Restore\<close>, and of the
  close button \<open>CloseWithReason(kCloseButtonClicked)\<close>; nothing else changes. This holds for
  every event and every reaction of the window manager.
\<close>

theorem ButtonPressed_dispatch:
  assumes "TitleBar_invariant tb" and "GetWidget tb = Some w"
  shows "(sender = minimize_button tb \<longrightarrow>
            ButtonPressed e sender event tb =
              Some (tb\<lparr>widget := Some (WindowManager e Minimize w)\<rparr>)) \<and>
         (sender = maximize_button tb \<longrightarrow>
            ButtonPressed e sender event tb =
              Some (tb\<lparr>widget := Some (WindowManager e Maximize w)\<rparr>)) \<and>
         (sender = restore_button tb \<longrightarrow>
            ButtonPressed e sender event tb =
              Some (tb\<lparr>widget := Some (WindowManager e Restore w)\<rparr>)) \<and>
         (sender = close_button tb \<longrightarrow>
            ButtonPressed e sender event tb =
              Some (tb\<lparr>widget :=
                Some (WindowManager e (CloseWithReason kCloseButtonClicked) w)\<rparr>))"
proof -
  note d = invariant_neq [OF assms(1)] invariant_neq [OF assms(1), symmetric]
  show ?thesis
    using assms(2) by (simp add: ButtonPressed_def d)
qed

text \<open>
  On the concrete title bar the four buttons have addresses 4, 5, 6 and 7; each press
  appends its own call to the calls the widget has received.
\<close>

theorem ButtonPressed_dispatch_witness:
  "TitleBar_invariant title_bar_example \<and>
   GetWidget title_bar_example = Some widget_example \<and>
   ButtonPressed env_example 4 () title_bar_example =
     Some (title_bar_example\<lparr>widget := Some (widget_example\<lparr>received := [Minimize]\<rparr>)\<rparr>) \<and>
   ButtonPressed env_example 5 () title_bar_example =
     Some (title_bar_example
       \<lparr>widget := Some (widget_example\<lparr>IsMaximized := True, received := [Maximize]\<rparr>)\<rparr>) \<and>
   ButtonPressed env_example 6 () title_bar_example =
     Some (title_bar_example
       \<lparr>widget := Some (widget_example\<lparr>IsMaximized := False, received := [Restore]\<rparr>)\<rparr>) \<and>
   ButtonPressed env_example 7 () title_bar_example =
     Some (title_bar_example
       \<lparr>widget := Some (widget_example\<lparr>received := [CloseWithReason kCloseButtonClicked]\<rparr>)\<rparr>)"
proof -
  have w: "GetWidget title_bar_example = Some widget_example"
    by (simp add: GetWidget_def example_widget)
  have r: "received widget_example = []"
    by (simp add: widget_example_def)
  show ?thesis
    using ButtonPressed_dispatch [OF example_invariant w, of 4 env_example "()"]
      ButtonPressed_dispatch [OF example_invariant w, of 5 env_example "()"]
      ButtonPressed_dispatch [OF example_invariant w, of 6 env_example "()"]
      ButtonPressed_dispatch [OF example_invariant w, of 7 env_example "()"]
    by (simp add: example_invariant w r example_members env_example_def)
qed

text \<open>
  C9. For a sender that is none of the minimize, maximize, restore and close buttons,
  \<open>TitleBar::ButtonPressed\<close> returns with the title bar and its widget exactly as they were:
  no operation of the window manager is invoked.
\<close>

theorem ButtonPressed_other_sender:
  assumes "sender \<noteq> minimize_button tb" and "sender \<noteq> maximize_button tb"
    and "sender \<noteq> restore_button tb" and "sender \<noteq> close_button tb"
  shows "ButtonPressed e sender event tb = Some tb"
  using assms by (simp add: ButtonPressed_def)

text \<open>The hamburger button and the icon view of the concrete title bar are such senders.\<close>

theorem ButtonPressed_other_sender_witness:
  "hamburger_button title_bar_example \<noteq> minimize_button title_bar_example \<and>
   hamburger_button title_bar_example \<noteq> maximize_button title_bar_example \<and>
   hamburger_button title_bar_example \<noteq> restore_button title_bar_example \<and>
   hamburger_button title_bar_example \<noteq> close_button title_bar_example \<and>
   ButtonPressed env_example (hamburger_button title_bar_example) () title_bar_example =
     Some title_bar_example \<and>
   ButtonPressed env_example (window_icon title_bar_example) () title_bar_example =
     Some title_bar_example"
  using ButtonPressed_other_sender
          [of "hamburger_button title_bar_example" title_bar_example env_example "()"]
        ButtonPressed_other_sender
          [of "window_icon title_bar_example" title_bar_example env_example "()"]
  by (simp add: example_members)

section \<open>Layout of the caption buttons\<close>



text \<open>
  C6. The caption buttons are positioned from right to left. \<open>TitleBar::LayoutCaptionButtons\<close>
  returns with the title bar's own bounds, widget, children and member pointers as they
  were, and with the four buttons of the title bar it was called on placed so: the right
  edge of the close button is the width of the title bar, the right edges of the restore
  and of the maximize button are the left edge of the close button, the right edge of the
  minimize button is the left edge of the maximize button, and the top edge of each of the
  four is 0. Each button has its preferred size, and the hamburger button, the icon and
  the title label are not touched.
\<close>

theorem LayoutCaptionButtons_right_to_left:
  assumes "TitleBar_invariant tb" and "GetWidget tb = Some w"
  shows "\<exists>tb' c r m n.
           LayoutCaptionButtons e tb = Some tb' \<and>
           self tb' = self tb \<and> widget tb' = widget tb \<and>
           children tb' = children tb \<and> members tb' = members tb \<and>
           bounds tb' (close_button tb) = Some c \<and>
           bounds tb' (restore_button tb) = Some r \<and>
           bounds tb' (maximize_button tb) = Some m \<and>
           bounds tb' (minimize_button tb) = Some n \<and>
           Rect_right c = width (self tb) \<and>
           Rect_right r = Rect_x c \<and> Rect_right m = Rect_x c \<and>
           Rect_right n = Rect_x m \<and>
           Rect_y c = 0 \<and> Rect_y r = 0 \<and> Rect_y m = 0 \<and> Rect_y n = 0 \<and>
           Rect_width c = Size_width (GetPreferredSize e (close_button tb)) \<and>
           Rect_width r = Size_width (GetPreferredSize e (restore_button tb)) \<and>
           Rect_width m = Size_width (GetPreferredSize e (maximize_button tb)) \<and>
           Rect_width n = Size_width (GetPreferredSize e (minimize_button tb)) \<and>
           Rect_height c = Size_height (GetPreferredSize e (close_button tb)) \<and>
           Rect_height r = Size_height (GetPreferredSize e (restore_button tb)) \<and>
           Rect_height m = Size_height (GetPreferredSize e (maximize_button tb)) \<and>
           Rect_height n = Size_height (GetPreferredSize e (minimize_button tb)) \<and>
           deref tb' (hamburger_button tb) = deref tb (hamburger_button tb) \<and>
           deref tb' (window_icon tb) = deref tb (window_icon tb) \<and>
           deref tb' (window_title tb) = deref tb (window_title tb)"
proof -
  have w: "widget tb = Some w"
    using assms(2) by (simp add: GetWidget_def)
  note d = invariant_neq [OF assms(1)] invariant_neq [OF assms(1), symmetric]
  show ?thesis
    by (simp add: LayoutCaptionButtons_closed [OF assms(1) w] bounds_def members_def
        deref_after_LayoutCaptionButtons [OF assms(1)] d Rect_right_def
        caption_button_bounds_def)
qed

text \<open>
  On the concrete title bar, 800 pixels wide with buttons of 46 by 29 pixels, the theorem
  alone fixes the four rectangles: the close button starts at 754, the restore and
  maximize buttons at 708 and the minimize button at 662.
\<close>

theorem LayoutCaptionButtons_right_to_left_witness:
  "TitleBar_invariant title_bar_example \<and>
   GetWidget title_bar_example = Some widget_example \<and>
   width (self title_bar_example) = 800 \<and>
   (\<exists>tb'. LayoutCaptionButtons env_example title_bar_example = Some tb' \<and>
      self tb' = self title_bar_example \<and>
      members tb' = members title_bar_example \<and>
      bounds tb' (close_button title_bar_example) = Some (gfx_Rect 754 0 46 29) \<and>
      bounds tb' (restore_button title_bar_example) = Some (gfx_Rect 708 0 46 29) \<and>
      bounds tb' (maximize_button title_bar_example) = Some (gfx_Rect 708 0 46 29) \<and>
      bounds tb' (minimize_button title_bar_example) = Some (gfx_Rect 662 0 46 29))"
proof -
  have w: "GetWidget title_bar_example = Some widget_example"
    by (simp add: GetWidget_def example_widget)
  have s: "Size_height (GetPreferredSize env_example p) = 29" for p
    by (simp add: env_example_def gfx_Size_def)
  have eq: "r = gfx_Rect x y (int a) (int b) \<longleftrightarrow>
      Rect_x r = x \<and> Rect_y r = y \<and> Rect_width r = a \<and> Rect_height r = b" for r x y a b
    by (cases r) (auto simp: gfx_Rect_def)
  from LayoutCaptionButtons_right_to_left [OF example_invariant w, of env_example]
  obtain tb' c r m n where
    "LayoutCaptionButtons env_example title_bar_example = Some tb'"
    "self tb' = self title_bar_example" "members tb' = members title_bar_example"
    "bounds tb' (close_button title_bar_example) = Some c"
    "bounds tb' (restore_button title_bar_example) = Some r"
    "bounds tb' (maximize_button title_bar_example) = Some m"
    "bounds tb' (minimize_button title_bar_example) = Some n"
    "c = gfx_Rect 754 0 46 29" "r = gfx_Rect 708 0 46 29" "m = gfx_Rect 708 0 46 29"
    "n = gfx_Rect 662 0 46 29"
    using eq [of _ _ _ 46 29]
    by (auto simp: example_rects s Rect_right_def)
  then show ?thesis
    by (simp add: example_invariant w example_rects)
qed

section \<open>Hit test\<close>

text \<open>
  C3. \<open>TitleBar::NonClientHitTest\<close> maps every point to a region of the window:
  \<open>HTCLIENT\<close> when the point lies within the bounds of the title bar and the view that
  handles events at that point is the minimize, maximize, restore or close button, which
  the function recognises by the id of the view; \<open>HTCAPTION\<close> for every other point
  within the bounds; \<open>HTNOWHERE\<close> for every point outside them.
\<close>

theorem NonClientHitTest_regions:
  "NonClientHitTest e tb point =
     (if Rect_Contains (view_bounds (self tb)) point then
        (if GetID (GetEventHandlerForPoint e point) \<in>
              {VIEW_ID_MINIMIZE_BUTTON, VIEW_ID_MAXIMIZE_BUTTON,
               VIEW_ID_RESTORE_BUTTON, VIEW_ID_CLOSE_BUTTON}
         then HTCLIENT else HTCAPTION)
      else HTNOWHERE)"
  by (simp add: NonClientHitTest_def split: ViewID.split)

text \<open>
  On the concrete title bar, whose bounds are 800 by 29 at the origin and where the close
  button handles the events from x = 754 on: a point on the close button, a point on the
  caption, a point below the bar and a point to the right of it.
\<close>

theorem NonClientHitTest_regions_witness:
  "NonClientHitTest env_example title_bar_example \<lparr>Point_x = 760, Point_y = 10\<rparr> = HTCLIENT \<and>
   NonClientHitTest env_example title_bar_example \<lparr>Point_x = 300, Point_y = 10\<rparr> = HTCAPTION \<and>
   NonClientHitTest env_example title_bar_example \<lparr>Point_x = 300, Point_y = 29\<rparr> = HTNOWHERE \<and>
   NonClientHitTest env_example title_bar_example \<lparr>Point_x = 800, Point_y = 10\<rparr> = HTNOWHERE"
proof -
  have b: "view_bounds (self title_bar_example) = gfx_Rect 0 0 800 29"
    by (simp add: title_bar_example_def)
  show ?thesis
    unfolding NonClientHitTest_regions b
    by (simp add: Rect_Contains_def gfx_Rect_def Rect_right_def Rect_bottom_def
        env_example_def GetID_def View_ctor_def)
qed

section \<open>Height\<close>

text \<open>
  C4, as the claim states it: the height is \<open>SM_CYCAPTION\<close> plus \<open>SM_CYSIZEFRAME\<close>, plus
  \<open>SM_CYEDGE\<close> when the widget exists and is not maximized. A title bar that has no widget
  yet, such as the one the constructor returns, refutes it: \<open>SM_CYEDGE\<close> is added there too
  (23 + 4 + 2 = 29, not 27).
\<close>

theorem Height_no_widget_counterexample:
  "Height env_example (TitleBar_ctor env_example) \<noteq>
     GetSystemMetricsInDIP env_example SM_CYCAPTION +
     GetSystemMetricsInDIP env_example SM_CYSIZEFRAME +
     (if \<exists>w. GetWidget (TitleBar_ctor env_example) = Some w \<and> \<not> IsMaximized w
      then GetSystemMetricsInDIP env_example SM_CYEDGE else 0)"
  by (simp add: Height_def GetWidget_def ctor_widget env_example_def)

text \<open>
  C4, amended. \<open>TitleBar::Height\<close> returns \<open>SM_CYCAPTION\<close> plus \<open>SM_CYSIZEFRAME\<close>, plus
  \<open>SM_CYEDGE\<close> unless the widget exists and is maximized: the term is added when the
  widget is not maximized and also when there is no widget, and omitted when the widget
  is maximized.
\<close>

theorem Height_metrics:
  "Height e tb =
     GetSystemMetricsInDIP e SM_CYCAPTION + GetSystemMetricsInDIP e SM_CYSIZEFRAME +
     (if \<exists>w. GetWidget tb = Some w \<and> IsMaximized w
      then 0 else GetSystemMetricsInDIP e SM_CYEDGE)"
  by (simp add: Height_def split: option.split)

text \<open>
  Without a widget and with a restored widget the height is 29, with a maximized widget
  it is 27.
\<close>

theorem Height_metrics_witness:
  "Height env_example (TitleBar_ctor env_example) = 29 \<and>
   Height env_example title_bar_example = 29 \<and>
   Height env_example
     (title_bar_example\<lparr>widget := Some (widget_example\<lparr>IsMaximized := True\<rparr>)\<rparr>) = 27"
  unfolding Height_metrics
  by (simp add: GetWidget_def ctor_widget example_widget env_example_def widget_example_def)

section \<open>The window icon\<close>

text \<open>
  C5, as the claim states it: the fallback for a null icon is the only failure handling.
  The file handles two more failures, with the icon playing no part. A title bar without
  a widget, or with a widget that has no theme provider, gets the frame colour
  \<open>SK_ColorWHITE\<close> from \<open>GetFrameColor\<close>, where a theme provider would have given its own colour
  (7 below). And \<open>Layout\<close> returns at once for a title bar without a widget, where the
  unguarded \<open>LayoutCaptionButtons\<close> dereferences the null widget.
\<close>

theorem other_fallbacks_counterexample:
  "GetWidget (TitleBar_ctor env_example) = None \<and>
   GetFrameColor (TitleBar_ctor env_example) = SK_ColorWHITE \<and>
   GetThemeProvider widget_example = None \<and>
   GetFrameColor title_bar_example = SK_ColorWHITE \<and>
   GetFrameColor
     (title_bar_example\<lparr>widget := Some (widget_example\<lparr>GetThemeProvider := Some (\<lambda>c. 7)\<rparr>)\<rparr>) = 7 \<and>
   LayoutCaptionButtons env_example (TitleBar_ctor env_example) = None \<and>
   Layout env_example (TitleBar_ctor env_example) = Some (TitleBar_ctor env_example)"
proof -
  note v = invariant_valid [OF ctor_invariant [of env_example]]
  have n: "GetWidget (TitleBar_ctor env_example) = None"
    by (simp add: GetWidget_def ctor_widget)
  have l: "LayoutCaptionButtons env_example (TitleBar_ctor env_example) = None"
    by (simp add: LayoutCaptionButtons_def LayoutCaptionButton_valid v View_x_modify_bounds
        GetWidget_def ctor_widget)
  show ?thesis
    by (simp add: n l GetFrameColor_def Layout_def)
      (simp add: GetWidget_def example_widget widget_example_def)
qed

text \<open>
  C5, amended. A null icon is handled by a fallback that draws nothing: whenever loading
  the window icon fails, because \<open>LoadIcon\<close> returns a null handle or the bitmap converted
  from the handle is null, \<open>GetWindowIcon\<close> returns the null image and
  \<open>IconView::PaintButtonContents\<close> leaves the canvas as it was. It is not the only failure
  handling: \<open>GetFrameColor\<close> falls back to \<open>SK_ColorWHITE\<close> when there is no widget or no
  theme provider, and without a widget \<open>Layout\<close> does nothing and \<open>Height\<close> still returns
  the sum of the three metrics.
\<close>

theorem null_icon_and_other_fallbacks:
  "((LoadIcon e = None \<or>
     (\<exists>icon_handle. LoadIcon e = Some icon_handle \<and>
        SkBitmap_isNull (CreateSkBitmapFromHICON e icon_handle))) \<longrightarrow>
      GetWindowIcon e = ImageSkia_ctor \<and> ImageSkia_isNull (GetWindowIcon e) \<and>
      IconView_PaintButtonContents e f this canvas = canvas) \<and>
   ((GetWidget tb = None \<or> (\<exists>w. GetWidget tb = Some w \<and> GetThemeProvider w = None)) \<longrightarrow>
      GetFrameColor tb = SK_ColorWHITE) \<and>
   (GetWidget tb = None \<longrightarrow>
      Layout e tb = Some tb \<and>
      Height e tb =
        GetSystemMetricsInDIP e SM_CYCAPTION + GetSystemMetricsInDIP e SM_CYSIZEFRAME +
        GetSystemMetricsInDIP e SM_CYEDGE)"
proof -
  have icon: "GetWindowIcon e = ImageSkia_ctor \<and> ImageSkia_isNull (GetWindowIcon e) \<and>
      IconView_PaintButtonContents e f this canvas = canvas"
    if "LoadIcon e = None \<or>
     (\<exists>icon_handle. LoadIcon e = Some icon_handle \<and>
        SkBitmap_isNull (CreateSkBitmapFromHICON e icon_handle))"
  proof -
    from that have "GetWindowIcon e = ImageSkia_ctor"
      by (auto simp: GetWindowIcon_def)
    then show ?thesis
      by (simp add: IconView_PaintButtonContents_def ImageSkia_ctor_def)
  qed
  have colour: "GetFrameColor tb = SK_ColorWHITE"
    if "GetWidget tb = None \<or> (\<exists>w. GetWidget tb = Some w \<and> GetThemeProvider w = None)"
    using that by (auto simp: GetFrameColor_def)
  have layout: "Layout e tb = Some tb \<and>
      Height e tb =
        GetSystemMetricsInDIP e SM_CYCAPTION + GetSystemMetricsInDIP e SM_CYSIZEFRAME +
        GetSystemMetricsInDIP e SM_CYEDGE"
    if "GetWidget tb = None"
    using that by (simp add: Layout_def Height_def)
  from icon colour layout show ?thesis by blast
qed

text \<open>
  Both icon failures (the concrete environment has no icon handle, and in it the handle 0
  converts to a null bitmap), the title bar fresh from the constructor, which has no
  widget, and the concrete title bar, whose widget has no theme provider.
\<close>

theorem null_icon_and_other_fallbacks_witness:
  "LoadIcon env_example = None \<and>
   GetWindowIcon env_example = ImageSkia_ctor \<and>
   IconView_PaintButtonContents env_example float_example View_ctor [] = [] \<and>
   LoadIcon (env_example\<lparr>LoadIcon := Some 0\<rparr>) = Some 0 \<and>
   SkBitmap_isNull (CreateSkBitmapFromHICON (env_example\<lparr>LoadIcon := Some 0\<rparr>) 0) \<and>
   GetWindowIcon (env_example\<lparr>LoadIcon := Some 0\<rparr>) = ImageSkia_ctor \<and>
   IconView_PaintButtonContents (env_example\<lparr>LoadIcon := Some 0\<rparr>) float_example View_ctor [] = [] \<and>
   GetWidget (TitleBar_ctor env_example) = None \<and>
   GetFrameColor (TitleBar_ctor env_example) = SK_ColorWHITE \<and>
   Layout env_example (TitleBar_ctor env_example) = Some (TitleBar_ctor env_example) \<and>
   Height env_example (TitleBar_ctor env_example) = 29 \<and>
   GetWidget title_bar_example = Some widget_example \<and>
   GetThemeProvider widget_example = None \<and>
   GetFrameColor title_bar_example = SK_ColorWHITE"
proof -
  have a: "LoadIcon env_example = None"
    by (simp add: env_example_def)
  have b: "LoadIcon (env_example\<lparr>LoadIcon := Some 0\<rparr>) = Some 0"
    "SkBitmap_isNull (CreateSkBitmapFromHICON (env_example\<lparr>LoadIcon := Some 0\<rparr>) 0)"
    "SkBitmap_isNull (CreateSkBitmapFromHICON env_example 0)"
    by (simp_all add: env_example_def)
  have n: "GetWidget (TitleBar_ctor env_example) = None"
    by (simp add: GetWidget_def ctor_widget)
  have w: "GetWidget title_bar_example = Some widget_example"
    "GetThemeProvider widget_example = None"
    by (simp_all add: GetWidget_def example_widget widget_example_def)
  have m: "GetSystemMetricsInDIP env_example SM_CYCAPTION +
      GetSystemMetricsInDIP env_example SM_CYSIZEFRAME +
      GetSystemMetricsInDIP env_example SM_CYEDGE = 29"
    by (simp add: env_example_def)
  show ?thesis
    using null_icon_and_other_fallbacks [of env_example float_example View_ctor "[]" "TitleBar_ctor env_example"]
      null_icon_and_other_fallbacks [of "env_example\<lparr>LoadIcon := Some 0\<rparr>" float_example View_ctor "[]"
        title_bar_example]
    by (simp add: a b n w m)
qed

text \<open>
  When the icon loads, it is drawn: handle 1 converts to a 32 by 32 bitmap, which an icon
  view of 20 by 18 pixels draws scaled to 18 by 18 at offset (1, 0).
\<close>

lemma example_icon_drawn:
  "IconView_PaintButtonContents (env_example\<lparr>LoadIcon := Some 1\<rparr>) float_example
     (View_ctor\<lparr>view_bounds := gfx_Rect 0 0 20 18\<rparr>) [] =
   [DrawImageInt \<lparr>ImageSkia_isNull = False, ImageSkia_width = 32, ImageSkia_height = 32\<rparr>
        0 0 32 32 1 0 18 18 True]"
  by (simp add: IconView_PaintButtonContents_def GetWindowIcon_def env_example_def
      IconView_PaintIcon_def IconView_dest_size_def float_example_def kFaviconSize_def
      width_def height_def gfx_Rect_def cpp_div_def Let_def)

section \<open>Centering of the icon\<close>




section \<open>Children and layout\<close>

text \<open>
  C8, as the claim states it: the children of the title bar are exactly an icon, a title
  label and four caption buttons, and every layout pass positions them. The constructed
  title bar has seven children: the hamburger button is one of them and is none of those
  six. And a layout pass of the concrete title bar leaves the icon view with the empty
  bounds at the origin.
\<close>

theorem children_and_layout_counterexample:
  "hamburger_button (TitleBar_ctor env_example) \<in> set (children (TitleBar_ctor env_example)) \<and>
   hamburger_button (TitleBar_ctor env_example) \<notin>
     {window_icon (TitleBar_ctor env_example), window_title (TitleBar_ctor env_example),
      minimize_button (TitleBar_ctor env_example), maximize_button (TitleBar_ctor env_example),
      restore_button (TitleBar_ctor env_example), close_button (TitleBar_ctor env_example)} \<and>
   length (children (TitleBar_ctor env_example)) = 7 \<and>
   Option.bind (Layout env_example title_bar_example)
     (\<lambda>tb'. bounds tb' (window_icon tb')) = Some (gfx_Rect 0 0 0 0)"
proof -
  note d = invariant_neq [OF example_invariant] invariant_neq [OF example_invariant, symmetric]
  have "Option.bind (Layout env_example title_bar_example)
     (\<lambda>tb'. bounds tb' (window_icon tb')) = Some (gfx_Rect 0 0 0 0)"
    by (simp add: Layout_closed [OF example_invariant example_widget] bounds_def
        deref_after_LayoutTitleBar deref_after_LayoutCaptionButtons example_invariant d
        example_icon View_ctor_def)
  then show ?thesis
    by (simp add: ctor_children ctor_members)
qed

text \<open>
  C8, amended. Every construction creates seven child views, in this order: the hamburger
  button, the icon, the title label, and the minimize, maximize, restore and close
  buttons; the seven pointers are valid and pairwise different. Every layout pass of a
  title bar that has a widget (\<open>tb\<close>) keeps the children and positions the hamburger
  button, the title label and the four caption buttons, each at a rectangle that depends
  only on the screen metrics, the preferred sizes and the width of the title bar; it does
  not touch the icon view. A layout pass of a title bar without a widget (\<open>tb2\<close>) changes
  nothing.
\<close>

theorem children_and_layout:
  assumes "TitleBar_invariant tb" and "GetWidget tb = Some w" and "GetWidget tb2 = None"
  shows "children (TitleBar_ctor e) =
           [hamburger_button (TitleBar_ctor e), window_icon (TitleBar_ctor e),
            window_title (TitleBar_ctor e), minimize_button (TitleBar_ctor e),
            maximize_button (TitleBar_ctor e), restore_button (TitleBar_ctor e),
            close_button (TitleBar_ctor e)] \<and>
         TitleBar_invariant (TitleBar_ctor e) \<and>
         (\<exists>tb'. Layout e tb = Some tb' \<and>
            children tb' = children tb \<and> members tb' = members tb \<and>
            bounds tb' (close_button tb) =
              Some (caption_button_bounds e (close_button tb) (width (self tb))) \<and>
            bounds tb' (restore_button tb) =
              Some (caption_button_bounds e (restore_button tb)
                (width (self tb) - int (Size_width (GetPreferredSize e (close_button tb))))) \<and>
            bounds tb' (maximize_button tb) =
              Some (caption_button_bounds e (maximize_button tb)
                (width (self tb) - int (Size_width (GetPreferredSize e (close_button tb))))) \<and>
            bounds tb' (minimize_button tb) =
              Some (caption_button_bounds e (minimize_button tb)
                (width (self tb) - int (Size_width (GetPreferredSize e (close_button tb)))
                   - int (Size_width (GetPreferredSize e (maximize_button tb))))) \<and>
            bounds tb' (hamburger_button tb) = Some (hamburger_bounds e tb) \<and>
            bounds tb' (window_title tb) =
              Some (title_bounds e tb
                (width (self tb) - int (Size_width (GetPreferredSize e (close_button tb)))
                   - int (Size_width (GetPreferredSize e (maximize_button tb)))
                   - int (Size_width (GetPreferredSize e (minimize_button tb))))) \<and>
            deref tb' (window_icon tb) = deref tb (window_icon tb)) \<and>
         Layout e tb2 = Some tb2"
proof -
  have w: "widget tb = Some w"
    using assms(2) by (simp add: GetWidget_def)
  note d = invariant_neq [OF assms(1)] invariant_neq [OF assms(1), symmetric]
  note v = invariant_valid [OF assms(1)]
  have ctor: "children (TitleBar_ctor e) =
           [hamburger_button (TitleBar_ctor e), window_icon (TitleBar_ctor e),
            window_title (TitleBar_ctor e), minimize_button (TitleBar_ctor e),
            maximize_button (TitleBar_ctor e), restore_button (TitleBar_ctor e),
            close_button (TitleBar_ctor e)]"
    by (simp add: ctor_children ctor_members)
  have height: "Height e (after_LayoutCaptionButtons e w tb) = Height e tb"
    by (simp add: Height_def GetWidget_def)
  have tbounds: "title_bounds e (after_LayoutCaptionButtons e w tb) = title_bounds e tb"
    by (rule ext) (simp add: title_bounds_def height)
  have hbounds: "hamburger_bounds e (after_LayoutCaptionButtons e w tb) = hamburger_bounds e tb"
    by (simp add: hamburger_bounds_def)
  have minx: "Rect_x (view_bounds (view_at (after_LayoutCaptionButtons e w tb) (minimize_button tb))) =
      width (self tb) - int (Size_width (GetPreferredSize e (close_button tb)))
                   - int (Size_width (GetPreferredSize e (maximize_button tb)))
                   - int (Size_width (GetPreferredSize e (minimize_button tb)))"
    using deref_after_LayoutCaptionButtons [OF assms(1), of e w "minimize_button tb"]
    by (simp add: deref_valid v d caption_button_bounds_def)
  have layout: "\<exists>tb'. Layout e tb = Some tb' \<and>
            children tb' = children tb \<and> members tb' = members tb \<and>
            bounds tb' (close_button tb) =
              Some (caption_button_bounds e (close_button tb) (width (self tb))) \<and>
            bounds tb' (restore_button tb) =
              Some (caption_button_bounds e (restore_button tb)
                (width (self tb) - int (Size_width (GetPreferredSize e (close_button tb))))) \<and>
            bounds tb' (maximize_button tb) =
              Some (caption_button_bounds e (maximize_button tb)
                (width (self tb) - int (Size_width (GetPreferredSize e (close_button tb))))) \<and>
            bounds tb' (minimize_button tb) =
              Some (caption_button_bounds e (minimize_button tb)
                (width (self tb) - int (Size_width (GetPreferredSize e (close_button tb)))
                   - int (Size_width (GetPreferredSize e (maximize_button tb))))) \<and>
            bounds tb' (hamburger_button tb) = Some (hamburger_bounds e tb) \<and>
            bounds tb' (window_title tb) =
              Some (title_bounds e tb
                (width (self tb) - int (Size_width (GetPreferredSize e (close_button tb)))
                   - int (Size_width (GetPreferredSize e (maximize_button tb)))
                   - int (Size_width (GetPreferredSize e (minimize_button tb))))) \<and>
            deref tb' (window_icon tb) = deref tb (window_icon tb)"
    by (simp add: Layout_closed [OF assms(1) w] members_def bounds_def
        deref_after_LayoutTitleBar deref_after_LayoutCaptionButtons assms(1) d
        tbounds hbounds minx)
  have "Layout e tb2 = Some tb2"
    using assms(3) by (simp add: Layout_def)
  with ctor layout show ?thesis
    by (simp add: ctor_invariant)
qed

text \<open>
  The rectangles on the concrete title bar, and the layout pass of the title bar fresh from
  the constructor, which has no widget.
\<close>

theorem children_and_layout_witness:
  "TitleBar_invariant title_bar_example \<and>
   GetWidget title_bar_example = Some widget_example \<and>
   GetWidget (TitleBar_ctor env_example) = None \<and>
   children (TitleBar_ctor env_example) = [1, 2, 3, 4, 5, 6, 7] \<and>
   (\<exists>tb'. Layout env_example title_bar_example = Some tb' \<and>
      bounds tb' (close_button title_bar_example) = Some (gfx_Rect 754 0 46 29) \<and>
      bounds tb' (restore_button title_bar_example) = Some (gfx_Rect 708 0 46 29) \<and>
      bounds tb' (maximize_button title_bar_example) = Some (gfx_Rect 708 0 46 29) \<and>
      bounds tb' (minimize_button title_bar_example) = Some (gfx_Rect 662 0 46 29) \<and>
      bounds tb' (hamburger_button title_bar_example) = Some (gfx_Rect 0 0 46 29) \<and>
      bounds tb' (window_title title_bar_example) = Some (gfx_Rect 51 6 611 16) \<and>
      deref tb' (window_icon title_bar_example) = Some View_ctor) \<and>
   Layout env_example (TitleBar_ctor env_example) = Some (TitleBar_ctor env_example)"
proof -
  have w: "GetWidget title_bar_example = Some widget_example"
    by (simp add: GetWidget_def example_widget)
  have n: "GetWidget (TitleBar_ctor env_example) = None"
    by (simp add: GetWidget_def ctor_widget)
  show ?thesis
    using children_and_layout [OF example_invariant w n, of env_example]
    by (auto simp add: example_invariant w n example_rects example_icon ctor_members)
qed

section \<open>The assertion in LayoutTitleBar\<close>

text \<open>
  C10. \<open>DCHECK_LE(next_leading_x, kMinimumTitleLeftBorderMargin)\<close> in
  \<open>TitleBar::LayoutTitleBar\<close> is never evaluated. \<open>ShowHamburgerMenu()\<close> is always true, so
  the condition of the enclosing branch, \<open>!ShowIcon() && !ShowHamburgerMenu()\<close>, is always
  false; and the result of \<open>LayoutTitleBar\<close> is the same whatever the assertion macro does,
  for every title bar and every environment. So no call of \<open>LayoutTitleBar\<close> can fail the
  assertion.
\<close>

theorem LayoutTitleBar_DCHECK_unreachable:
  "ShowHamburgerMenu tb \<and> \<not> (\<not> ShowIcon tb \<and> \<not> ShowHamburgerMenu tb) \<and>
   LayoutTitleBar (e\<lparr>DCHECK_LE := check\<rparr>) tb = LayoutTitleBar e tb"
  by (simp add: LayoutTitleBar_def ShowIcon_def ShowHamburgerMenu_def ShowTitle_def Height_def)

text \<open>
  On the concrete title bar the title starts at x = 51, where the assertion would fail if
  it were evaluated; \<open>LayoutTitleBar\<close> returns all the same, also with a macro that always
  aborts.
\<close>

theorem LayoutTitleBar_DCHECK_unreachable_witness:
  "DCHECK_LE env_example 51 kMinimumTitleLeftBorderMargin = None \<and>
   LayoutTitleBar (env_example\<lparr>DCHECK_LE := \<lambda>a b. None\<rparr>) title_bar_example =
     LayoutTitleBar env_example title_bar_example \<and>
   LayoutTitleBar env_example title_bar_example \<noteq> None \<and>
   Option.bind (LayoutTitleBar env_example title_bar_example)
     (\<lambda>tb'. map_option Rect_x (bounds tb' (window_title tb'))) = Some 51"
proof -
  note d = invariant_neq [OF example_invariant] invariant_neq [OF example_invariant, symmetric]
  have "DCHECK_LE env_example 51 kMinimumTitleLeftBorderMargin = None"
    by (simp add: env_example_def kMinimumTitleLeftBorderMargin_def)
  moreover have "Option.bind (LayoutTitleBar env_example title_bar_example)
     (\<lambda>tb'. map_option Rect_x (bounds tb' (window_title tb'))) = Some 51"
    by (simp add: LayoutTitleBar_closed [OF example_invariant example_widget] bounds_def
        deref_after_LayoutTitleBar [OF example_invariant] d example_rects gfx_Rect_def)
  ultimately show ?thesis
    using LayoutTitleBar_DCHECK_unreachable
      [where tb = title_bar_example and e = env_example and check = "\<lambda>a b. None"]
    by (simp add: LayoutTitleBar_closed [OF example_invariant example_widget])
qed

end
